theory Spec2Isabelle
  imports Complex_Main "HOL-Library.Char_ord" "HOL-Library.List_Lexorder" "HOL-Library.Multiset"
begin

section \<open>Time\<close>

text \<open>
  A Python \<open>datetime\<close> is an instant with microsecond resolution and a \<open>timedelta\<close> is
  a whole number of microseconds. Both are modelled as integers counting microseconds
  (aware datetimes compare as instants, so the time zone plays no role).
  The wall clock (\<open>datetime.datetime.now\<close>) is a parameter \<open>now\<close> of every operation
  that reads it; one pass sees one reading.
\<close>

type_synonym datetime = int
type_synonym timedelta = int

definition timedelta_seconds :: "int \<Rightarrow> timedelta" where
  "timedelta_seconds s = s * 1000000"

text \<open>\<open>timedelta.total_seconds()\<close>; the float is modelled as the exact rational.\<close>

definition total_seconds :: "timedelta \<Rightarrow> rat" where
  "total_seconds d = of_int d / 1000000"

text \<open>The class constants of \<open>AutoScalingTimeouts\<close>, in seconds.\<close>

definition TIMEOUT :: int where "TIMEOUT = 3600"
definition SPOT_REQUEST_TIMEOUT :: int where "SPOT_REQUEST_TIMEOUT = 300"
definition MAX_OUTBIDS_IN_INTERVAL :: int where "MAX_OUTBIDS_IN_INTERVAL = 60 * 20"
definition SPOT_HISTORY_PERIOD :: int where "SPOT_HISTORY_PERIOD = 60 * 60 * 5"

section \<open>The message patterns\<close>

text \<open>
  The compiled patterns of \<open>AutoScalingErrorMessages\<close> and \<open>AutoScalingCauseMessages\<close>
  are written out as matchers on strings. A matcher takes the text at the current
  position and returns what is left after the match, or \<open>None\<close>. Messages are taken
  to be ASCII, so \<open>\d\<close> is one of the ten digits; \<open>.\<close> is any character but a
  newline.
\<close>

fun lit :: "string \<Rightarrow> string \<Rightarrow> string option" where
  "lit [] s = Some s"
| "lit (p # ps) [] = None"
| "lit (p # ps) (c # cs) = (if p = c then lit ps cs else None)"

definition is_digit :: "char \<Rightarrow> bool" where
  "is_digit c = (CHR ''0'' \<le> c \<and> c \<le> CHR ''9'')"

definition digit_val :: "char \<Rightarrow> int" where
  "digit_val c = of_char c - 48"

text \<open>\<open>int(s)\<close> for a string of digits.\<close>

definition int_of_digits :: "string \<Rightarrow> int" where
  "int_of_digits ds = foldl (\<lambda>a c. 10 * a + digit_val c) 0 ds"

text \<open>\<open>\d\<close>\<close>

fun digit :: "string \<Rightarrow> string option" where
  "digit [] = None"
| "digit (c # cs) = (if is_digit c then Some cs else None)"

text \<open>\<open>\d+\<close>, greedy; what follows it in every pattern is not a digit, so the
  longest run is the only candidate. Returns the digits and the rest.\<close>

definition digits :: "string \<Rightarrow> (string \<times> string) option" where
  "digits s = (if takeWhile is_digit s = [] then None
               else Some (takeWhile is_digit s, dropWhile is_digit s))"

text \<open>\<open>.\<close>\<close>

fun dot :: "string \<Rightarrow> string option" where
  "dot [] = None"
| "dot (c # cs) = (if c = CHR 0x0A then None else Some cs)"

text \<open>\<open>.+\<close> followed by the rest \<open>k\<close> of the pattern: greedy, the longest run first,
  giving back one character at a time. Returns the run and what \<open>k\<close> returns.\<close>

fun dot_plus :: "(string \<Rightarrow> 'a option) \<Rightarrow> string \<Rightarrow> (string \<times> 'a) option" where
  "dot_plus k [] = None"
| "dot_plus k (c # cs) =
     (if c = CHR 0x0A then None
      else (case dot_plus k cs of
              Some (g, r) \<Rightarrow> Some (c # g, r)
            | None \<Rightarrow> (case k cs of Some r \<Rightarrow> Some ([c], r) | None \<Rightarrow> None)))"

text \<open>\<open>pattern.search\<close>: the leftmost position where the pattern matches;
  \<open>pattern.match\<close>: the pattern at the start of the text. A match object is
  \<open>Some\<close> of the groups the callers read, and is truthy.\<close>

definition re_match :: "(string \<Rightarrow> 'a option) \<Rightarrow> string \<Rightarrow> 'a option" where
  "re_match m s = m s"

fun re_search :: "(string \<Rightarrow> 'a option) \<Rightarrow> string \<Rightarrow> 'a option" where
  "re_search m [] = m []"
| "re_search m (c # cs) = (case m (c # cs) of Some r \<Rightarrow> Some r | None \<Rightarrow> re_search m cs)"

subsection \<open>\<open>AutoScalingErrorMessages\<close>\<close>

text \<open>Returns the group \<open>requested\<close>, already through \<open>int\<close>.\<close>

definition INSTANCE_LIMIT :: "string \<Rightarrow> int option" where
  "INSTANCE_LIMIT s =
     Option.bind (lit ''You have requested more instances ('' s) (\<lambda>s.
     Option.bind (digits s) (\<lambda>(requested, s).
     Option.bind (lit '') than your current instance limit of '' s) (\<lambda>s.
     Option.bind (digits s) (\<lambda>(limit, s).
     Option.bind (lit '' allows for the specified instance type'' s) (\<lambda>s.
     Option.bind (dot s) (\<lambda>s.
     Option.bind (lit '' Please visit http://aws'' s) (\<lambda>s.
     Option.bind (dot s) (\<lambda>s.
     Option.bind (lit ''amazon'' s) (\<lambda>s.
     Option.bind (dot s) (\<lambda>s.
     Option.bind (lit ''com/contact-us/ec2-request to request an adjustment to this limit'' s) (\<lambda>s.
     Option.bind (dot s) (\<lambda>s.
     Option.bind (lit '' Launching EC2 instance failed'' s) (\<lambda>s.
     Option.bind (dot s) (\<lambda>s.
     Some (int_of_digits requested)))))))))))))))"

definition VOLUME_LIMIT :: "string \<Rightarrow> string option" where
  "VOLUME_LIMIT s =
     Option.bind (lit ''Instance became unhealthy while waiting for instance to be in InService state'' s) (\<lambda>s.
     Option.bind (dot s) (\<lambda>s.
     Option.bind (lit '' Termination Reason: Client'' s) (\<lambda>s.
     Option.bind (dot s) (\<lambda>s.
     lit ''VolumeLimitExceeded: Volume limit exceeded'' s))))"

definition CAPACITY_LIMIT :: "string \<Rightarrow> string option" where
  "CAPACITY_LIMIT s = lit ''Insufficient capacity. Launching EC2 instance failed.'' s"

text \<open>Returns the group \<open>request_id\<close>.\<close>

definition SPOT_REQUEST_WAITING :: "string \<Rightarrow> string option" where
  "SPOT_REQUEST_WAITING s =
     Option.bind (lit ''Placed Spot instance request: '' s) (\<lambda>s.
     Option.bind (dot_plus (\<lambda>s. Option.bind (dot s) (lit '' Waiting for instance(s)'')) s)
       (\<lambda>(request_id, s). Some request_id))"

text \<open>Returns the group \<open>request_id\<close>.\<close>

definition SPOT_REQUEST_CANCELLED :: "string \<Rightarrow> string option" where
  "SPOT_REQUEST_CANCELLED s =
     Option.bind (lit ''Spot instance request: '' s) (\<lambda>s.
     Option.bind (dot_plus (lit '' has been cancelled.'') s)
       (\<lambda>(request_id, s). Some request_id))"

definition SPOT_LIMIT :: "string \<Rightarrow> string option" where
  "SPOT_LIMIT s =
     lit ''Max spot instance count exceeded. Placing Spot instance request failed.'' s"

text \<open>Returns the unnamed group, the text after \<open>requested\<close>.\<close>

definition AZ_LIMIT :: "string \<Rightarrow> string option" where
  "AZ_LIMIT s =
     Option.bind (lit ''We currently do not have sufficient '' s) (\<lambda>s.
     Option.bind (dot_plus (\<lambda>s.
         Option.bind (lit '' capacity in the Availability Zone you requested '' s)
           (dot_plus (lit ''.''))) s)
       (\<lambda>(g, zone, s). Some zone))"

subsection \<open>\<open>AutoScalingCauseMessages\<close>\<close>

text \<open>Returns the group \<open>original_capacity\<close>, already through \<open>int\<close>.\<close>

definition LAUNCH_INSTANCE :: "string \<Rightarrow> int option" where
  "LAUNCH_INSTANCE s =
     Option.bind (lit ''At '' s) (\<lambda>s.
     Option.bind (digit s) (\<lambda>s. Option.bind (digit s) (\<lambda>s.
     Option.bind (digit s) (\<lambda>s. Option.bind (digit s) (\<lambda>s.
     Option.bind (lit ''-'' s) (\<lambda>s.
     Option.bind (digit s) (\<lambda>s. Option.bind (digit s) (\<lambda>s.
     Option.bind (lit ''-'' s) (\<lambda>s.
     Option.bind (digit s) (\<lambda>s. Option.bind (digit s) (\<lambda>s.
     Option.bind (lit ''T'' s) (\<lambda>s.
     Option.bind (digit s) (\<lambda>s. Option.bind (digit s) (\<lambda>s.
     Option.bind (lit '':'' s) (\<lambda>s.
     Option.bind (digit s) (\<lambda>s. Option.bind (digit s) (\<lambda>s.
     Option.bind (lit '':'' s) (\<lambda>s.
     Option.bind (digit s) (\<lambda>s. Option.bind (digit s) (\<lambda>s.
     Option.bind (lit ''Z an instance was started in response to a difference between desired and actual capacity, increasing the capacity from '' s) (\<lambda>s.
     Option.bind (digits s) (\<lambda>(original_capacity, s).
     Option.bind (lit '' to '' s) (\<lambda>s.
     Option.bind (digits s) (\<lambda>(target_capacity, s).
     Option.bind (lit ''.'' s) (\<lambda>s.
     Some (int_of_digits original_capacity))))))))))))))))))))))))))"

definition AZ_BALANCE :: "string \<Rightarrow> string option" where
  "AZ_BALANCE s = lit ''An instance was launched to aid in balancing the group's zones.'' s"

text \<open>\<open>needle in hay\<close> on strings.\<close>

definition str_in :: "string \<Rightarrow> string \<Rightarrow> bool" where
  "str_in needle hay = (re_search (lit needle) hay \<noteq> None)"



section \<open>Data\<close>

text \<open>What the code raises.\<close>

datatype py_error = ClientError string | ValueError | TypeError | KeyError string

text \<open>A scaling activity as \<open>describe_scaling_activities\<close> returns it.
  \<open>StatusMessage\<close> and \<open>Cause\<close> are read with \<open>entry.get(..., '')\<close> and may be absent.\<close>

record activity =
  ActivityId :: string
  AutoScalingGroupName :: string
  StartTime :: datetime
  Progress :: int
  StatusCode :: string
  StatusMessage :: "string option"
  Cause :: "string option"

text \<open>A cluster node: the attributes this module reads. Its \<open>uncordon()\<close> method is a
  parameter of \<open>scale\<close>.\<close>

record kube_node =
  instance_id :: string
  unschedulable :: bool

text \<open>A launch configuration; \<open>SpotPrice\<close> is the price after \<open>float\<close>, when present.\<close>

record launch_configuration =
  LaunchConfigurationName :: string
  InstanceType :: string
  ImageId :: string
  SpotPrice :: "rat option"

text \<open>The attributes of an \<open>AutoScalingGroup\<close> object. \<open>is_spot\<close>, \<open>instance_type\<close> and
  \<open>_id\<close> are assigned once in \<open>__init__\<close> from the other attributes and never again,
  so they are functions of the record.\<close>

record AutoScalingGroup =
  region :: string
  name :: string
  desired_capacity :: int
  min_size :: int
  max_size :: int
  launch_config :: launch_configuration
  instance_ids :: "string list"
  nodes :: "kube_node list"
  unschedulable_nodes :: "kube_node list"

definition is_spot :: "AutoScalingGroup \<Rightarrow> bool" where
  "is_spot asg = (SpotPrice (launch_config asg) \<noteq> None)"

definition instance_type :: "AutoScalingGroup \<Rightarrow> string" where
  "instance_type asg = InstanceType (launch_config asg)"

definition asg_id :: "AutoScalingGroup \<Rightarrow> string \<times> string" where
  "asg_id asg = (region asg, name asg)"

definition actual_capacity :: "AutoScalingGroup \<Rightarrow> int" where
  "actual_capacity asg = int (length (nodes asg))"

text \<open>One observation of \<open>describe_spot_price_history\<close>; the price after \<open>float\<close>.\<close>

record spot_price =
  Timestamp :: datetime
  AvailabilityZone :: string
  sp_InstanceType :: string
  sp_SpotPrice :: rat

text \<open>The state of an \<open>AutoScalingTimeouts\<close> object. A dictionary entry may hold \<open>None\<close>.\<close>

record AutoScalingTimeouts =
  timeouts :: "string \<times> string \<rightharpoonup> datetime option"
  last_activities :: "string \<rightharpoonup> string"
  spot_timeouts :: "string \<times> string \<rightharpoonup> datetime option"
  spot_price_history :: "string \<rightharpoonup> spot_price list"

text \<open>\<open>d.get(k)\<close> for such a dictionary.\<close>

definition dict_get :: "('k \<rightharpoonup> 'v option) \<Rightarrow> 'k \<Rightarrow> 'v option" where
  "dict_get d k = (case d k of None \<Rightarrow> None | Some v \<Rightarrow> v)"

text \<open>The calls that change something outside the process, in the order they are made:
  the log of these calls is part of the state.\<close>

datatype provider_call =
    client_set_desired_capacity string int
  | client_describe_spot_instance_requests string string
  | client_cancel_spot_instance_requests string string
  | client_terminate_instance_in_auto_scaling_group string bool
  | node_uncordon string

section \<open>\<open>AutoScalingGroup\<close>\<close>

definition AutoScalingGroup_is_timed_out :: "AutoScalingGroup \<Rightarrow> bool" where
  "AutoScalingGroup_is_timed_out asg = False"

text \<open>\<open>set_desired_capacity\<close> calls the client with \<open>HonorCooldown=False\<close> and then
  assigns the attribute. The future it returns is completed with \<open>True\<close>.\<close>

definition set_desired_capacity ::
  "AutoScalingGroup \<Rightarrow> int \<Rightarrow> provider_call list \<Rightarrow> bool \<times> AutoScalingGroup \<times> provider_call list" where
  "set_desired_capacity asg new_desired_capacity calls =
     (True, asg\<lparr>desired_capacity := new_desired_capacity\<rparr>,
      calls @ [client_set_desired_capacity (name asg) new_desired_capacity])"

section \<open>\<open>AutoScalingTimeouts\<close>\<close>

text \<open>The state a reconciliation pass works on: the reconciler, the group and the calls made.\<close>

record world =
  reconciler :: AutoScalingTimeouts
  group :: AutoScalingGroup
  call_log :: "provider_call list"

definition asg_set_desired_capacity :: "int \<Rightarrow> world \<Rightarrow> world" where
  "asg_set_desired_capacity n w =
     (case set_desired_capacity (group w) n (call_log w) of
        (_, asg', calls') \<Rightarrow> w\<lparr>group := asg', call_log := calls'\<rparr>)"

definition time_out_asg :: "world \<Rightarrow> activity \<Rightarrow> world" where
  "time_out_asg w entry =
     w\<lparr>reconciler := (reconciler w)\<lparr>timeouts := (timeouts (reconciler w))
        (asg_id (group w) \<mapsto> Some (StartTime entry + timedelta_seconds TIMEOUT))\<rparr>\<rparr>"

definition revert_capacity :: "world \<Rightarrow> activity \<Rightarrow> bool \<Rightarrow> bool \<times> world" where
  "revert_capacity w entry dry_run =
     (case re_search LAUNCH_INSTANCE (case Cause entry of None \<Rightarrow> [] | Some c \<Rightarrow> c) of
        Some original_capacity \<Rightarrow>
          if desired_capacity (group w) > original_capacity then
            (if \<not> dry_run then (True, asg_set_desired_capacity original_capacity w)
             else (True, w))
          else (False, w)
      | None \<Rightarrow> (False, w))"

text \<open>\<open>cancel_spot_request\<close>. The answer of \<open>describe_spot_instance_requests\<close> is the
  parameter \<open>describe\<close>: the \<open>State\<close> of each request returned for a region and a
  request id.\<close>

definition cancel_spot_request ::
  "(string \<Rightarrow> string \<Rightarrow> string list) \<Rightarrow> string \<Rightarrow> string \<Rightarrow> provider_call list
     \<Rightarrow> bool \<times> provider_call list" where
  "cancel_spot_request describe rgn request_id cs =
     (let cs1 = cs @ [client_describe_spot_instance_requests rgn request_id] in
      case describe rgn request_id of
        [] \<Rightarrow> (False, cs1)
      | state # _ \<Rightarrow>
          if state = ''open'' \<or> state = ''active''
          then (True, cs1 @ [client_cancel_spot_instance_requests rgn request_id])
          else (False, cs1))"

text \<open>One iteration of the loop of \<open>reconcile_limits\<close>: \<open>Return\<close> where the body
  returns, \<open>Next\<close> where it continues or reaches its end.\<close>

datatype 'a flow = Next 'a | Return 'a

definition reconcile_entry ::
  "(string \<Rightarrow> string \<Rightarrow> string list) \<Rightarrow> datetime \<Rightarrow> bool \<Rightarrow> world \<Rightarrow> activity \<Rightarrow> world flow" where
  "reconcile_entry describe now dry_run w entry =
     (let status_msg = (case StatusMessage entry of None \<Rightarrow> [] | Some m \<Rightarrow> m) in
      if StatusCode entry = ''Failed'' \<or> StatusCode entry = ''Cancelled'' then
        (case re_match INSTANCE_LIMIT status_msg of
           Some requested \<Rightarrow>
             (let max_desired_capacity = requested - 1 in
              if desired_capacity (group w) > max_desired_capacity then
                (let w1 = time_out_asg w entry in
                 if \<not> dry_run then Return (asg_set_desired_capacity max_desired_capacity w1)
                 else Return w1)
              else Return w)
         | None \<Rightarrow>
        if re_match VOLUME_LIMIT status_msg \<noteq> None then Return (time_out_asg w entry)
        else if re_match CAPACITY_LIMIT status_msg \<noteq> None then
          (case revert_capacity w entry dry_run of
             (reverted, w1) \<Rightarrow> if reverted then Return (time_out_asg w1 entry) else Return w1)
        else if re_search AZ_LIMIT status_msg \<noteq> None \<and> str_in ''only-az'' (name (group w)) then
          (case revert_capacity w entry dry_run of
             (reverted, w1) \<Rightarrow> if reverted then Return (time_out_asg w1 entry) else Return w1)
        else if re_search SPOT_REQUEST_CANCELLED status_msg \<noteq> None then Next w
        else if re_match SPOT_LIMIT status_msg \<noteq> None then
          (let w1 = time_out_asg w entry in
           if \<not> dry_run then Return (asg_set_desired_capacity (actual_capacity (group w1)) w1)
           else Return w1)
        else Next w)
      else if StatusCode entry = ''WaitingForSpotInstanceId'' then
        (if re_search AZ_BALANCE (case Cause entry of None \<Rightarrow> [] | Some c \<Rightarrow> c) \<noteq> None
         then Next w
         else if now - StartTime entry > timedelta_seconds SPOT_REQUEST_TIMEOUT then
           (let w1 = time_out_asg w entry in
            case re_search SPOT_REQUEST_WAITING status_msg of
              Some spot_request_id \<Rightarrow>
                if \<not> dry_run then
                  (case cancel_spot_request describe (region (group w1)) spot_request_id (call_log w1) of
                     (cancelled, cs) \<Rightarrow>
                       if cancelled
                       then Next (asg_set_desired_capacity (desired_capacity (group w1) - 1) (w1\<lparr>call_log := cs\<rparr>))
                       else Next (w1\<lparr>call_log := cs\<rparr>))
                else Next w1
            | None \<Rightarrow> Next w1)
         else Next w)
      else Next w)"

text \<open>\<open>reconcile_limits\<close>: the loop, and the assignment after it.\<close>

fun reconcile_limits ::
  "(string \<Rightarrow> string \<Rightarrow> string list) \<Rightarrow> datetime \<Rightarrow> bool \<Rightarrow> world \<Rightarrow> activity list \<Rightarrow> world" where
  "reconcile_limits describe now dry_run w [] =
     w\<lparr>reconciler := (reconciler w)\<lparr>timeouts := (timeouts (reconciler w))(asg_id (group w) \<mapsto> None)\<rparr>\<rparr>"
| "reconcile_limits describe now dry_run w (entry # activities) =
     (case reconcile_entry describe now dry_run w entry of
        Return w1 \<Rightarrow> w1
      | Next w1 \<Rightarrow> reconcile_limits describe now dry_run w1 activities)"

text \<open>\<open>is_timed_out\<close>; a datetime is truthy, \<open>None\<close> is not.\<close>

definition is_timed_out :: "AutoScalingTimeouts \<Rightarrow> datetime \<Rightarrow> AutoScalingGroup \<Rightarrow> bool" where
  "is_timed_out slf now asg =
     (let timeout = dict_get (timeouts slf) (asg_id asg);
          spot_timeout = dict_get (spot_timeouts slf) (asg_id asg) in
      if timeout \<noteq> None \<and> now < the timeout then True
      else if spot_timeout \<noteq> None \<and> now < the spot_timeout then True
      else False)"

section \<open>\<open>AutoScalingGroup.scale\<close> and \<open>scale_nodes_in\<close>\<close>

text \<open>The loop of \<open>scale\<close> over \<open>self.unschedulable_nodes\<close>. \<open>uncordon\<close> is the answer of
  \<open>node.uncordon()\<close>. Returns \<open>num_schedulable\<close> and the calls.\<close>

fun uncordon_nodes ::
  "(kube_node \<Rightarrow> bool) \<Rightarrow> int \<Rightarrow> int \<Rightarrow> kube_node list \<Rightarrow> provider_call list
     \<Rightarrow> int \<times> provider_call list" where
  "uncordon_nodes uncordon desired num_schedulable [] calls = (num_schedulable, calls)"
| "uncordon_nodes uncordon desired num_schedulable (node # rest) calls =
     (if uncordon node then
        (if num_schedulable + 1 = desired
         then (num_schedulable + 1, calls @ [node_uncordon (instance_id node)])
         else uncordon_nodes uncordon desired (num_schedulable + 1) rest
                (calls @ [node_uncordon (instance_id node)]))
      else uncordon_nodes uncordon desired num_schedulable rest
             (calls @ [node_uncordon (instance_id node)]))"

text \<open>\<open>scale\<close>; the first component is what the returned future holds.\<close>

definition scale ::
  "(kube_node \<Rightarrow> bool) \<Rightarrow> AutoScalingGroup \<Rightarrow> int \<Rightarrow> provider_call list
     \<Rightarrow> bool \<times> AutoScalingGroup \<times> provider_call list" where
  "scale uncordon asg new_desired_capacity calls =
     (let desired = min (max_size asg) new_desired_capacity;
          num_unschedulable = int (length (unschedulable_nodes asg));
          num_schedulable = actual_capacity asg - num_unschedulable;
          (num_schedulable, calls) =
             (if num_schedulable < desired
              then uncordon_nodes uncordon desired num_schedulable (unschedulable_nodes asg) calls
              else (num_schedulable, calls))
      in if desired_capacity asg \<noteq> desired then
           (if desired_capacity asg = max_size asg then (False, asg, calls)
            else (let scale_up = desired_capacity asg < desired in
                  if scale_up then set_desired_capacity asg desired calls
                  else (False, asg, calls)))
         else (False, asg, calls))"



section \<open>\<open>AutoScalingTimeouts.time_out_spot_asgs\<close>\<close>

text \<open>Python dictionaries that are iterated keep insertion order: association lists.
  \<open>d[k] = v\<close> and \<open>d.setdefault(k, []).append(v)\<close>:\<close>

fun dict_set :: "'k \<Rightarrow> 'v \<Rightarrow> ('k \<times> 'v) list \<Rightarrow> ('k \<times> 'v) list" where
  "dict_set k v [] = [(k, v)]"
| "dict_set k v ((k', v') # d) = (if k = k' then (k, v) # d else (k', v') # dict_set k v d)"

fun setdefault_append :: "'k \<Rightarrow> 'v \<Rightarrow> ('k \<times> 'v list) list \<Rightarrow> ('k \<times> 'v list) list" where
  "setdefault_append k v [] = [(k, [v])]"
| "setdefault_append k v ((k', vs) # d) =
     (if k = k' then (k', vs @ [v]) # d else (k', vs) # setdefault_append k v d)"

text \<open>The first loop: \<open>region_instance_asg_map\<close>.\<close>

fun region_instance_setdefault ::
  "string \<Rightarrow> string \<Rightarrow> AutoScalingGroup
     \<Rightarrow> (string \<times> (string \<times> AutoScalingGroup list) list) list
     \<Rightarrow> (string \<times> (string \<times> AutoScalingGroup list) list) list" where
  "region_instance_setdefault r t a [] = [(r, [(t, [a])])]"
| "region_instance_setdefault r t a ((r', m) # d) =
     (if r = r' then (r', setdefault_append t a m) # d
      else (r', m) # region_instance_setdefault r t a d)"

definition region_instance_asg_map ::
  "AutoScalingGroup list \<Rightarrow> (string \<times> (string \<times> AutoScalingGroup list) list) list" where
  "region_instance_asg_map asgs =
     fold (\<lambda>a m. if \<not> is_spot a then m
                  else region_instance_setdefault (region a) (InstanceType (launch_config a)) a m)
       asgs []"

text \<open>The loop over \<open>history\<close> for one group: one item, on \<open>last_az_bid\<close> and
  \<open>outbid_time\<close>.\<close>

definition outbid_item ::
  "string \<Rightarrow> rat \<Rightarrow> spot_price \<Rightarrow> (string \<rightharpoonup> datetime) \<times> (string \<times> timedelta) list
     \<Rightarrow> (string \<rightharpoonup> datetime) \<times> (string \<times> timedelta) list" where
  "outbid_item itype bid_price item st =
     (case st of (last_az_bid, outbid_time) \<Rightarrow>
        if sp_InstanceType item \<noteq> itype then (last_az_bid, outbid_time)
        else
          (let outbid_time1 =
             (if sp_SpotPrice item > bid_price then
                (let time_diff = (case last_az_bid (AvailabilityZone item) of
                                    Some t \<Rightarrow> t - Timestamp item
                                  | None \<Rightarrow> timedelta_seconds 0)
                 in dict_set (AvailabilityZone item)
                      ((case map_of outbid_time (AvailabilityZone item) of
                          Some d \<Rightarrow> d | None \<Rightarrow> timedelta_seconds 0) + time_diff)
                      outbid_time)
              else outbid_time)
           in (last_az_bid(AvailabilityZone item \<mapsto> Timestamp item), outbid_time1)))"

definition outbid_times :: "string \<Rightarrow> rat \<Rightarrow> spot_price list \<Rightarrow> (string \<times> timedelta) list" where
  "outbid_times itype bid_price history =
     snd (fold (outbid_item itype bid_price) history (Map.empty, []))"

definition avg_outbid_time :: "(string \<times> timedelta) list \<Rightarrow> rat" where
  "avg_outbid_time outbid_time =
     (if outbid_time \<noteq> []
      then (\<Sum>(az, t)\<leftarrow>outbid_time. total_seconds t) / of_nat (length outbid_time)
      else 0)"

text \<open>The body of the innermost loop, for one group with its bid price.\<close>

definition time_out_spot_asg ::
  "datetime \<Rightarrow> spot_price list \<Rightarrow> string \<Rightarrow> AutoScalingGroup \<Rightarrow> rat
     \<Rightarrow> AutoScalingTimeouts \<Rightarrow> AutoScalingTimeouts" where
  "time_out_spot_asg now history itype asg bid_price slf =
     (if avg_outbid_time (outbid_times itype bid_price history) > of_int MAX_OUTBIDS_IN_INTERVAL
      then slf\<lparr>spot_timeouts := (spot_timeouts slf)
             (asg_id asg \<mapsto> Some (now + timedelta_seconds TIMEOUT))\<rparr>
      else slf\<lparr>spot_timeouts := (spot_timeouts slf)(asg_id asg \<mapsto> None)\<rparr>)"

text \<open>\<open>max\<close> of a non-empty list.\<close>

fun list_max :: "int list \<Rightarrow> int" where
  "list_max [] = 0"
| "list_max (x # xs) = fold max xs x"

text \<open>The loop over the regions. \<open>fetch\<close> is what \<open>fetch_all\<close> returns for
  \<open>describe_spot_price_history\<close> with a region, a \<open>StartTime\<close> and the \<open>InstanceTypes\<close>.
  Only groups with a \<open>SpotPrice\<close> are in the map, so \<open>float\<close> always has a price to
  read.\<close>

definition time_out_spot_region ::
  "(string \<Rightarrow> datetime \<Rightarrow> string list \<Rightarrow> spot_price list) \<Rightarrow> datetime
     \<Rightarrow> string \<times> (string \<times> AutoScalingGroup list) list
     \<Rightarrow> AutoScalingTimeouts \<Rightarrow> AutoScalingTimeouts" where
  "time_out_spot_region fetch now entry slf =
     (case entry of (rgn, instance_asg_map) \<Rightarrow>
        let since = now - timedelta_seconds SPOT_HISTORY_PERIOD;
            history = filter (\<lambda>item. Timestamp item > since)
                        (case spot_price_history slf rgn of None \<Rightarrow> [] | Some h \<Rightarrow> h);
            newest_spot_price = (if history \<noteq> [] then list_max (map Timestamp history) else since);
            history = history @ fetch rgn newest_spot_price (map fst instance_asg_map);
            slf = slf\<lparr>spot_price_history := (spot_price_history slf)(rgn \<mapsto> history)\<rparr>
        in fold (\<lambda>(itype, asgs) slf.
                   fold (\<lambda>asg slf. case SpotPrice (launch_config asg) of
                                       Some bid_price \<Rightarrow> time_out_spot_asg now history itype asg bid_price slf
                                     | None \<Rightarrow> slf)
                     asgs slf)
             instance_asg_map slf)"

definition time_out_spot_asgs ::
  "(string \<Rightarrow> datetime \<Rightarrow> string list \<Rightarrow> spot_price list) \<Rightarrow> datetime
     \<Rightarrow> AutoScalingTimeouts \<Rightarrow> AutoScalingGroup list \<Rightarrow> AutoScalingTimeouts" where
  "time_out_spot_asgs fetch now slf asgs =
     fold (time_out_spot_region fetch now) (region_instance_asg_map asgs) slf"

section \<open>\<open>AutoScalingTimeouts.refresh_timeouts\<close>\<close>

text \<open>The loop over \<open>iter_activities\<close>: its three variables, and what it does with the
  activities the generator yields, up to a \<open>break\<close>.\<close>

record scan =
  start_time_cutoff :: "datetime option"
  newest_completed_activity :: "activity option"
  activities_by_group :: "(string \<times> activity list) list"

fun scan_activities :: "string option \<Rightarrow> datetime \<Rightarrow> scan \<Rightarrow> activity list \<Rightarrow> scan" where
  "scan_activities last_activity now sc [] = sc"
| "scan_activities last_activity now sc (a # rest) =
     (let sc1 = (if newest_completed_activity sc = None \<and> Progress a = 100
                 then sc\<lparr>newest_completed_activity := Some a\<rparr> else sc) in
      if Some (ActivityId a) = last_activity then sc1
      else
        (let cutoff = (case start_time_cutoff sc1 of
                         None \<Rightarrow> now - timedelta_seconds TIMEOUT
                       | Some c \<Rightarrow> c);
             sc2 = sc1\<lparr>start_time_cutoff := Some cutoff\<rparr> in
         if StartTime a < cutoff then sc2
         else scan_activities last_activity now
                (sc2\<lparr>activities_by_group :=
                   setdefault_append (AutoScalingGroupName a) a (activities_by_group sc2)\<rparr>)
                rest))"

text \<open>The loop over \<open>regional_asgs\<close>; the groups come back as the pass left them.\<close>

fun reconcile_region ::
  "(string \<Rightarrow> string \<Rightarrow> string list) \<Rightarrow> datetime \<Rightarrow> bool \<Rightarrow> (string \<times> activity list) list
     \<Rightarrow> AutoScalingTimeouts \<Rightarrow> AutoScalingGroup list \<Rightarrow> provider_call list
     \<Rightarrow> AutoScalingTimeouts \<times> AutoScalingGroup list \<times> provider_call list" where
  "reconcile_region describe now dry_run acts slf [] calls = (slf, [], calls)"
| "reconcile_region describe now dry_run acts slf (a # rest) calls =
     (let w = reconcile_limits describe now dry_run
                \<lparr>reconciler = slf, group = a, call_log = calls\<rparr>
                (case map_of acts (name a) of None \<Rightarrow> [] | Some l \<Rightarrow> l) in
      case reconcile_region describe now dry_run acts (reconciler w) rest (call_log w) of
        (slf', rest', calls') \<Rightarrow> (slf', group w # rest', calls'))"

text \<open>One region. \<open>stream\<close> is what \<open>iter_activities\<close> yields for the region's client.
  \<open>newest_completed_activity['ActivityId']\<close> raises \<open>TypeError\<close> on \<open>None\<close>; the state
  is then as the loop left it.\<close>

definition refresh_region ::
  "(string \<Rightarrow> string \<Rightarrow> string list) \<Rightarrow> (string \<Rightarrow> activity list) \<Rightarrow> datetime \<Rightarrow> bool
     \<Rightarrow> AutoScalingTimeouts \<Rightarrow> string \<Rightarrow> AutoScalingGroup list \<Rightarrow> provider_call list
     \<Rightarrow> py_error option \<times> AutoScalingTimeouts \<times> AutoScalingGroup list \<times> provider_call list" where
  "refresh_region describe stream now dry_run slf rgn regional_asgs calls =
     (let sc = scan_activities (last_activities slf rgn) now
                 \<lparr>start_time_cutoff = None, newest_completed_activity = None,
                  activities_by_group = []\<rparr> (stream rgn) in
      case newest_completed_activity sc of
        None \<Rightarrow> (Some TypeError, slf, regional_asgs, calls)
      | Some a \<Rightarrow>
          (case reconcile_region describe now dry_run (activities_by_group sc)
                  (slf\<lparr>last_activities := (last_activities slf)(rgn \<mapsto> ActivityId a)\<rparr>)
                  regional_asgs calls of
             (slf', asgs', calls') \<Rightarrow> (None, slf', asgs', calls')))"

text \<open>The loop over \<open>asgs_by_region\<close>; an exception ends it.\<close>

fun refresh_regions ::
  "(string \<Rightarrow> string \<Rightarrow> string list) \<Rightarrow> (string \<Rightarrow> activity list) \<Rightarrow> datetime \<Rightarrow> bool
     \<Rightarrow> AutoScalingTimeouts \<Rightarrow> (string \<times> AutoScalingGroup list) list \<Rightarrow> provider_call list
     \<Rightarrow> py_error option \<times> AutoScalingTimeouts \<times> (string \<times> AutoScalingGroup list) list
         \<times> provider_call list" where
  "refresh_regions describe stream now dry_run slf [] calls = (None, slf, [], calls)"
| "refresh_regions describe stream now dry_run slf ((rgn, regional_asgs) # rest) calls =
     (case refresh_region describe stream now dry_run slf rgn regional_asgs calls of
        (Some e, slf', asgs', calls') \<Rightarrow> (Some e, slf', (rgn, asgs') # rest, calls')
      | (None, slf', asgs', calls') \<Rightarrow>
          (case refresh_regions describe stream now dry_run slf' rest calls' of
             (e, slf'', rest', calls'') \<Rightarrow> (e, slf'', (rgn, asgs') # rest', calls'')))"

definition refresh_timeouts ::
  "(string \<Rightarrow> datetime \<Rightarrow> string list \<Rightarrow> spot_price list) \<Rightarrow> (string \<Rightarrow> string \<Rightarrow> string list)
     \<Rightarrow> (string \<Rightarrow> activity list) \<Rightarrow> datetime \<Rightarrow> bool
     \<Rightarrow> AutoScalingTimeouts \<Rightarrow> AutoScalingGroup list \<Rightarrow> provider_call list
     \<Rightarrow> py_error option \<times> AutoScalingTimeouts \<times> (string \<times> AutoScalingGroup list) list
         \<times> provider_call list" where
  "refresh_timeouts fetch describe stream now dry_run slf asgs calls =
     (let slf1 = time_out_spot_asgs fetch now slf asgs;
          asgs_by_region = fold (\<lambda>a m. setdefault_append (region a) a m) asgs []
      in refresh_regions describe stream now dry_run slf1 asgs_by_region calls)"

section \<open>\<open>AutoScalingGroups\<close>\<close>

text \<open>A group as \<open>describe_auto_scaling_groups\<close> returns it. An instance may lack its
  \<open>InstanceId\<close>.\<close>

record raw_group =
  rg_AutoScalingGroupName :: string
  rg_LaunchConfigurationName :: string
  Tags :: "(string \<times> string) list"
  DesiredCapacity :: int
  MinSize :: int
  MaxSize :: int
  Instances :: "string option list"

text \<open>\<open>range(0, n, step)\<close> and \<open>xs[i:j]\<close> for \<open>0 \<le> i \<le> j\<close>.\<close>

definition py_range :: "nat \<Rightarrow> nat \<Rightarrow> nat list" where
  "py_range n step = map (\<lambda>i. i * step) [0 ..< (n + step - 1) div step]"

definition slice :: "'a list \<Rightarrow> nat \<Rightarrow> nat \<Rightarrow> 'a list" where
  "slice xs i j = take (j - i) (drop i xs)"

text \<open>\<open>get_all_raw_groups_and_launch_configs\<close>. \<open>raw_groups\<close> is what \<open>fetch_all\<close> returns
  for \<open>describe_auto_scaling_groups\<close>, and \<open>describe_launch_configurations\<close> what it returns
  for a list of \<open>LaunchConfigurationNames\<close>. The third component is the list of the name
  lists requested, in order.\<close>

definition batch_size :: nat where "batch_size = 50"

definition get_all_raw_groups_and_launch_configs ::
  "raw_group list \<Rightarrow> (string list \<Rightarrow> launch_configuration list)
     \<Rightarrow> raw_group list \<times> (string \<rightharpoonup> launch_configuration) \<times> string list list" where
  "get_all_raw_groups_and_launch_configs raw_groups describe_launch_configurations =
     (case fold (\<lambda>launch_config_idx (all_launch_configs, requests).
                   let groups = slice raw_groups (launch_config_idx * batch_size)
                                  ((launch_config_idx + 1) * batch_size);
                       names = map rg_LaunchConfigurationName groups;
                       launch_configs = describe_launch_configurations names
                   in (fold (\<lambda>lc m. m(LaunchConfigurationName lc \<mapsto> lc)) launch_configs
                         all_launch_configs,
                       requests @ [names]))
             (py_range (length raw_groups) batch_size) (Map.empty, []) of
        (all_launch_configs, requests) \<Rightarrow> (raw_groups, all_launch_configs, requests))"

text \<open>\<open>AutoScalingGroup.__init__\<close>, for the attributes of the record (the selectors and
  taints are read by none of the operations here).\<close>

definition AutoScalingGroup_init ::
  "string \<Rightarrow> kube_node list \<Rightarrow> raw_group \<Rightarrow> launch_configuration \<Rightarrow> AutoScalingGroup" where
  "AutoScalingGroup_init rgn kube_nodes rg lc =
     (let ids = [i. Some i \<leftarrow> Instances rg, i \<noteq> []];
          ns = filter (\<lambda>node. instance_id node \<in> set ids) kube_nodes
      in \<lparr>region = rgn, name = rg_AutoScalingGroupName rg,
          desired_capacity = DesiredCapacity rg, min_size = MinSize rg, max_size = MaxSize rg,
          launch_config = lc, instance_ids = ids, nodes = ns,
          unschedulable_nodes = filter unschedulable ns\<rparr>)"

text \<open>The tag loop of \<open>get_all_groups\<close>: the last cluster tag and the last role tag.\<close>

definition CLUSTER_KEY :: string where "CLUSTER_KEY = ''KubernetesCluster''"
definition ROLE_KEYS :: "string list" where "ROLE_KEYS = [''KubernetesRole'', ''Role'']"
definition WORKER_ROLE_VALUES :: "string list" where
  "WORKER_ROLE_VALUES = [''worker'', ''kubernetes-minion'']"

definition cluster_and_role :: "(string \<times> string) list \<Rightarrow> string option \<times> string option" where
  "cluster_and_role tags =
     fold (\<lambda>(key, val) (cluster_name, role).
             if key = CLUSTER_KEY then (Some val, role)
             else if key \<in> set ROLE_KEYS then (cluster_name, Some val)
             else (cluster_name, role))
       tags (None, None)"

text \<open>The loop of \<open>get_all_groups\<close> over the sorted groups of one region;
  \<open>launch_configs[...]\<close> raises \<open>KeyError\<close> on a missing name.\<close>

fun build_groups ::
  "string option \<Rightarrow> string \<Rightarrow> kube_node list \<Rightarrow> (string \<rightharpoonup> launch_configuration)
     \<Rightarrow> raw_group list \<Rightarrow> py_error + AutoScalingGroup list" where
  "build_groups cluster rgn kube_nodes launch_configs [] = Inr []"
| "build_groups cluster rgn kube_nodes launch_configs (rg # rest) =
     (if cluster \<noteq> None \<and> cluster \<noteq> Some [] \<and>
         (case cluster_and_role (Tags rg) of
            (cluster_name, role) \<Rightarrow>
              cluster_name \<noteq> cluster \<or>
              (case role of None \<Rightarrow> True | Some r \<Rightarrow> r \<notin> set WORKER_ROLE_VALUES))
      then build_groups cluster rgn kube_nodes launch_configs rest
      else
        (case launch_configs (rg_LaunchConfigurationName rg) of
           None \<Rightarrow> Inl (KeyError (rg_LaunchConfigurationName rg))
         | Some lc \<Rightarrow>
             (case build_groups cluster rgn kube_nodes launch_configs rest of
                Inl e \<Rightarrow> Inl e
              | Inr gs \<Rightarrow> Inr (AutoScalingGroup_init rgn kube_nodes rg lc # gs))))"

text \<open>\<open>get_all_groups\<close> for one region.\<close>

definition get_all_groups ::
  "string option \<Rightarrow> string \<Rightarrow> kube_node list \<Rightarrow> raw_group list
     \<Rightarrow> (string list \<Rightarrow> launch_configuration list) \<Rightarrow> py_error + AutoScalingGroup list" where
  "get_all_groups cluster rgn kube_nodes raw_groups describe_launch_configurations =
     (case get_all_raw_groups_and_launch_configs raw_groups describe_launch_configurations of
        (raw_groups, launch_configs, requests) \<Rightarrow>
          build_groups cluster rgn kube_nodes launch_configs
            (sort_key rg_AutoScalingGroupName raw_groups))"

section \<open>Concrete inputs\<close>

text \<open>\<open>AutoScalingTimeouts.__init__\<close>: four empty dictionaries.\<close>

definition AutoScalingTimeouts_init :: AutoScalingTimeouts where
  "AutoScalingTimeouts_init =
     \<lparr>timeouts = Map.empty, last_activities = Map.empty,
      spot_timeouts = Map.empty, spot_price_history = Map.empty\<rparr>"

definition example_group :: AutoScalingGroup where
  "example_group =
     \<lparr>region = ''us-east-1'', name = ''workers'', desired_capacity = 12, min_size = 0,
      max_size = 20,
      launch_config = \<lparr>LaunchConfigurationName = ''lc'', InstanceType = ''m4.large'',
                       ImageId = ''ami-1'', SpotPrice = None\<rparr>,
      instance_ids = [], nodes = [], unschedulable_nodes = []\<rparr>"

definition example_world :: world where
  "example_world =
     \<lparr>reconciler = AutoScalingTimeouts_init, group = example_group, call_log = []\<rparr>"

definition instance_limit_message :: string where
  "instance_limit_message = ''You have requested more instances (12) than your current instance limit of 10 allows for the specified instance type. Please visit http://aws.amazon.com/contact-us/ec2-request to request an adjustment to this limit. Launching EC2 instance failed.''"

text \<open>A failed launch, started 100 seconds after the epoch.\<close>

definition instance_limit_entry :: activity where
  "instance_limit_entry =
     \<lparr>ActivityId = ''a-2'', AutoScalingGroupName = ''workers'',
      StartTime = 100000000, Progress = 100, StatusCode = ''Failed'',
      StatusMessage = Some instance_limit_message, Cause = None\<rparr>"

text \<open>A spot request placed at the epoch and still waiting.\<close>

definition waiting_entry :: activity where
  "waiting_entry =
     \<lparr>ActivityId = ''a-1'', AutoScalingGroupName = ''workers'', StartTime = 0,
      Progress = 30, StatusCode = ''WaitingForSpotInstanceId'',
      StatusMessage = Some ''Placed Spot instance request: sir-1. Waiting for instance(s)'',
      Cause = None\<rparr>"

text \<open>A provider with no spot request, and one where every request is open.\<close>

definition no_spot_requests :: "string \<Rightarrow> string \<Rightarrow> string list" where
  "no_spot_requests rgn request_id = []"

definition open_spot_requests :: "string \<Rightarrow> string \<Rightarrow> string list" where
  "open_spot_requests rgn request_id = [''open'']"

text \<open>Ten minutes after the epoch, in microseconds.\<close>

definition ten_minutes :: datetime where
  "ten_minutes = 600000000"

text \<open>Three nodes of a group and a provider that rejects the first for the minimum size,
  terminates the second and refuses the third for another reason.\<close>

definition node_a :: kube_node where
  "node_a = \<lparr>instance_id = ''i-a'', unschedulable = False\<rparr>"

definition node_b :: kube_node where
  "node_b = \<lparr>instance_id = ''i-b'', unschedulable = False\<rparr>"

definition node_c :: kube_node where
  "node_c = \<lparr>instance_id = ''i-c'', unschedulable = True\<rparr>"

definition node_d :: kube_node where
  "node_d = \<lparr>instance_id = ''i-d'', unschedulable = False\<rparr>"

definition four_node_group :: AutoScalingGroup where
  "four_node_group =
     example_group\<lparr>desired_capacity := 3, min_size := 1, max_size := 10,
       instance_ids := [''i-a'', ''i-b'', ''i-c'', ''i-d''],
       nodes := [node_a, node_b, node_c, node_d], unschedulable_nodes := [node_c]\<rparr>"


section \<open>Evaluating the patterns\<close>

lemmas pattern_defs =
  re_match_def INSTANCE_LIMIT_def VOLUME_LIMIT_def CAPACITY_LIMIT_def SPOT_REQUEST_WAITING_def
  SPOT_REQUEST_CANCELLED_def SPOT_LIMIT_def AZ_LIMIT_def LAUNCH_INSTANCE_def AZ_BALANCE_def
  digits_def is_digit_def int_of_digits_def digit_val_def str_in_def

lemma instance_limit_message_matches:
  "re_match INSTANCE_LIMIT instance_limit_message = Some 12"
  by (simp add: instance_limit_message_def pattern_defs)

section \<open>The timeout query\<close>

text \<open>
  C2. For every group and evaluation time, \<open>is_timed_out\<close> is true exactly when the
  ordinary expiry of the group is not \<open>None\<close> and the time is strictly before it, or the
  spot expiry of the group is not \<open>None\<close> and the time is strictly before it; nothing
  else enters.
\<close>

theorem is_timed_out_iff:
  "is_timed_out slf now asg \<longleftrightarrow>
     (\<exists>t. dict_get (timeouts slf) (asg_id asg) = Some t \<and> now < t) \<or>
     (\<exists>t. dict_get (spot_timeouts slf) (asg_id asg) = Some t \<and> now < t)"
  by (auto simp: is_timed_out_def Let_def)

text \<open>
  C10. The group's own \<open>is_timed_out\<close> method is false for every group, also when the
  reconciler holds an expiry for that group that lies in the future and its
  \<open>is_timed_out\<close> query is true.
\<close>

theorem AutoScalingGroup_is_timed_out_never:
  "\<not> AutoScalingGroup_is_timed_out asg \<and>
   is_timed_out (slf\<lparr>timeouts := (timeouts slf)(asg_id asg \<mapsto> Some (now + 1))\<rparr>) now asg"
  by (simp add: AutoScalingGroup_is_timed_out_def is_timed_out_def dict_get_def)

section \<open>Reconciliation\<close>

text \<open>
  C3. When the first activity of the list is Failed or Cancelled and its status message
  is an instance-limit message with \<open>requested = N\<close>: if the desired capacity exceeds
  \<open>N - 1\<close>, the group is timed out until the start time of the activity plus one hour and,
  unless the run is dry, the desired capacity is set to \<open>N - 1\<close> by one provider call;
  if it does not exceed \<open>N - 1\<close>, nothing changes. In both cases the rest of the list is
  not looked at.
\<close>

theorem reconcile_limits_instance_limit:
  assumes "StatusCode entry = ''Failed'' \<or> StatusCode entry = ''Cancelled''"
    and "StatusMessage entry = Some msg"
    and "re_match INSTANCE_LIMIT msg = Some N"
  shows "reconcile_limits describe now dry_run w (entry # rest) =
     (if desired_capacity (group w) > N - 1 then
        (if dry_run
         then w\<lparr>reconciler := (reconciler w)\<lparr>timeouts := (timeouts (reconciler w))
                (asg_id (group w) \<mapsto> Some (StartTime entry + timedelta_seconds 3600))\<rparr>\<rparr>
         else w\<lparr>reconciler := (reconciler w)\<lparr>timeouts := (timeouts (reconciler w))
                (asg_id (group w) \<mapsto> Some (StartTime entry + timedelta_seconds 3600))\<rparr>,
               group := (group w)\<lparr>desired_capacity := N - 1\<rparr>,
               call_log := call_log w @ [client_set_desired_capacity (name (group w)) (N - 1)]\<rparr>)
      else w)"
  using assms
  by (simp add: reconcile_entry_def time_out_asg_def asg_set_desired_capacity_def
      set_desired_capacity_def TIMEOUT_def Let_def)

theorem reconcile_limits_instance_limit_witness:
  "(StatusCode instance_limit_entry = ''Failed'' \<or>
    StatusCode instance_limit_entry = ''Cancelled'') \<and>
   StatusMessage instance_limit_entry = Some instance_limit_message \<and>
   re_match INSTANCE_LIMIT instance_limit_message = Some 12 \<and>
   reconcile_limits no_spot_requests 0 False example_world [instance_limit_entry, waiting_entry] =
     example_world\<lparr>reconciler := AutoScalingTimeouts_init\<lparr>timeouts :=
          [(''us-east-1'', ''workers'') \<mapsto> Some 3700000000]\<rparr>,
        group := example_group\<lparr>desired_capacity := 11\<rparr>,
        call_log := [client_set_desired_capacity ''workers'' 11]\<rparr>"
proof -
  have h1: "StatusCode instance_limit_entry = ''Failed'' \<or>
      StatusCode instance_limit_entry = ''Cancelled''"
    by (simp add: instance_limit_entry_def)
  have h2: "StatusMessage instance_limit_entry = Some instance_limit_message"
    by (simp add: instance_limit_entry_def)
  note h3 = instance_limit_message_matches
  show ?thesis
    using reconcile_limits_instance_limit
      [OF h1 h2 h3, of no_spot_requests 0 False example_world "[waiting_entry]"] h1 h2 h3
    by (simp add: example_world_def example_group_def AutoScalingTimeouts_init_def asg_id_def
        instance_limit_entry_def timedelta_seconds_def)
qed

text \<open>
  C1, at a list that holds one spot request waiting for ten minutes. The iteration
  times the group out until one hour after the start of the activity and goes on; the
  list ends, and the assignment after the loop stores \<open>None\<close>: when \<open>reconcile_limits\<close>
  returns, the group is not timed out.
\<close>

theorem reconcile_limits_waiting_cleared:
  "reconcile_entry no_spot_requests ten_minutes True example_world waiting_entry =
     Next (example_world\<lparr>reconciler := AutoScalingTimeouts_init\<lparr>timeouts :=
          [(''us-east-1'', ''workers'') \<mapsto> Some 3600000000]\<rparr>\<rparr>) \<and>
   timeouts (reconciler
       (reconcile_limits no_spot_requests ten_minutes True example_world [waiting_entry]))
     (''us-east-1'', ''workers'') = Some None \<and>
   \<not> is_timed_out (reconciler
       (reconcile_limits no_spot_requests ten_minutes True example_world [waiting_entry]))
     ten_minutes example_group"
  by (simp add: reconcile_entry_def time_out_asg_def pattern_defs waiting_entry_def
      example_world_def example_group_def AutoScalingTimeouts_init_def asg_id_def
      timedelta_seconds_def TIMEOUT_def SPOT_REQUEST_TIMEOUT_def is_timed_out_def dict_get_def
      ten_minutes_def Let_def)

section \<open>Scaling\<close>

lemma uncordon_nodes_calls:
  "\<exists>k\<le>length ns. snd (uncordon_nodes u d n ns calls) =
      calls @ map (\<lambda>node. node_uncordon (instance_id node)) (take k ns)"
proof (induction ns arbitrary: n calls)
  case Nil
  then show ?case by simp
next
  case (Cons a ns)
  show ?case
  proof (cases "u a \<and> n + 1 = d")
    case True
    then have "snd (uncordon_nodes u d n (a # ns) calls) =
        calls @ map (\<lambda>node. node_uncordon (instance_id node)) (take 1 (a # ns))"
      by simp
    then show ?thesis by (intro exI [of _ 1]) simp
  next
    case False
    define n' where "n' = (if u a then n + 1 else n)"
    have eq: "uncordon_nodes u d n (a # ns) calls =
        uncordon_nodes u d n' ns (calls @ [node_uncordon (instance_id a)])"
      using False by (auto simp: n'_def)
    from Cons.IH [of n' "calls @ [node_uncordon (instance_id a)]"]
    obtain k where k: "k \<le> length ns"
      "snd (uncordon_nodes u d n' ns (calls @ [node_uncordon (instance_id a)])) =
         (calls @ [node_uncordon (instance_id a)]) @
           map (\<lambda>node. node_uncordon (instance_id node)) (take k ns)"
      by blast
    show ?thesis
      by (rule exI [of _ "Suc k"]) (use k eq in simp)
  qed
qed

text \<open>
  C7. \<open>scale\<close> uncordons some of the unschedulable nodes, in order, and then: when the
  desired capacity is strictly below \<open>min(max_size, target)\<close> it sets the desired capacity
  to that value by one provider call and its result is true; in every other case the
  group is unchanged, no capacity call is made and its result is false. So the desired
  capacity never decreases, and the result is true exactly when it increased.
\<close>

theorem scale_never_decreases:
  "\<exists>k\<le>length (unschedulable_nodes asg).
     scale uncordon asg target calls =
       (if desired_capacity asg < min (max_size asg) target
        then (True, asg\<lparr>desired_capacity := min (max_size asg) target\<rparr>,
              calls @ map (\<lambda>node. node_uncordon (instance_id node))
                        (take k (unschedulable_nodes asg))
                @ [client_set_desired_capacity (name asg) (min (max_size asg) target)])
        else (False, asg,
              calls @ map (\<lambda>node. node_uncordon (instance_id node))
                        (take k (unschedulable_nodes asg))))"
proof -
  define desired where "desired = min (max_size asg) target"
  define num where "num = actual_capacity asg - int (length (unschedulable_nodes asg))"
  define r where "r = (if num < desired
              then uncordon_nodes uncordon desired num (unschedulable_nodes asg) calls
              else (num, calls))"
  have "\<exists>k\<le>length (unschedulable_nodes asg). snd r =
      calls @ map (\<lambda>node. node_uncordon (instance_id node)) (take k (unschedulable_nodes asg))"
  proof (cases "num < desired")
    case True
    then show ?thesis
      using uncordon_nodes_calls [of "unschedulable_nodes asg" uncordon desired num calls]
      by (simp add: r_def)
  next
    case False
    then show ?thesis by (intro exI [of _ 0]) (simp add: r_def)
  qed
  then obtain k where k: "k \<le> length (unschedulable_nodes asg)"
    "snd r = calls @ map (\<lambda>node. node_uncordon (instance_id node))
                       (take k (unschedulable_nodes asg))"
    by blast
  have s: "scale uncordon asg target calls =
     (if desired_capacity asg \<noteq> desired then
           (if desired_capacity asg = max_size asg then (False, asg, snd r)
            else (if desired_capacity asg < desired then set_desired_capacity asg desired (snd r)
                  else (False, asg, snd r)))
         else (False, asg, snd r))"
    unfolding scale_def Let_def desired_def [symmetric] num_def [symmetric] r_def [symmetric]
    by (simp add: case_prod_beta)
  show ?thesis
    apply (rule exI [of _ k])
    using k s by (auto simp: desired_def set_desired_capacity_def)
qed

theorem scale_never_decreases_witness:
  "scale (\<lambda>node. True) four_node_group 5 [] =
     (True, four_node_group\<lparr>desired_capacity := 5\<rparr>,
      [node_uncordon ''i-c'', client_set_desired_capacity ''workers'' 5]) \<and>
   scale (\<lambda>node. True) (four_node_group\<lparr>desired_capacity := 10\<rparr>) 5 [] =
     (False, four_node_group\<lparr>desired_capacity := 10\<rparr>, [node_uncordon ''i-c''])"
  using scale_never_decreases [of four_node_group "\<lambda>node. True" 5 "[]"]
    scale_never_decreases [of "four_node_group\<lparr>desired_capacity := 10\<rparr>" "\<lambda>node. True" 5 "[]"]
  by (simp add: scale_def set_desired_capacity_def actual_capacity_def four_node_group_def
      example_group_def node_c_def Let_def)

section \<open>Terminating nodes\<close>





end
